theory Spec2Isabelle
  imports Complex_Main "HOL-Library.Sublist"
begin

section \<open>Python values, exceptions and sequences\<close>

text \<open>
  The exceptions that the modelled code can meet. A raise is the value \<open>Inl e\<close> of a
  result type \<open>py_error + 'a\<close>. \<open>OtherError\<close> stands for any exception class that is
  none of the named ones (a network or service fault, for instance).
\<close>

datatype py_error =
    AttributeError
  | KeyError string
  | IndexError
  | TypeError
  | ValueError
  | OSError
  | OtherError string

text \<open>
  The scalar values that occur as table cells, object identifiers and record keys.
  Floats are only stored and compared, never computed with, so a float is represented
  by the real number its literal denotes.
\<close>

datatype pyval = PNone | PInt int | PFloat real | PStr string

text \<open>Python's \<open>xs[i]\<close> on a list: a negative index counts from the end, an index out
  of range raises IndexError.\<close>

definition list_getitem :: "'a list \<Rightarrow> int \<Rightarrow> py_error + 'a" where
  "list_getitem xs i =
     (if 0 \<le> i \<and> i < int (length xs) then Inr (xs ! nat i)
      else if - int (length xs) \<le> i \<and> i < 0 then Inr (xs ! nat (int (length xs) + i))
      else Inl IndexError)"

text \<open>\<open>labels_list[objectid]\<close>: a list accepts integer indices only.\<close>

fun getitem_by :: "'a list \<Rightarrow> pyval \<Rightarrow> py_error + 'a" where
  "getitem_by xs (PInt i) = list_getitem xs i"
| "getitem_by xs PNone = Inl TypeError"
| "getitem_by xs (PFloat x) = Inl TypeError"
| "getitem_by xs (PStr s) = Inl TypeError"

section \<open>Tables\<close>

text \<open>
  An astropy table: named columns of one common length. It is kept as its column names
  and its rows, a row giving the cell under each column name, so that every column has
  the length of the table by construction.
\<close>

record table =
  colnames :: "string list"
  rows :: "(string \<Rightarrow> pyval) list"

text \<open>\<open>t[c]\<close>: the column named \<open>c\<close>, KeyError when the table has no such column.\<close>

definition getcol :: "table \<Rightarrow> string \<Rightarrow> py_error + pyval list" where
  "getcol t c =
     (if c \<in> set (colnames t) then Inr (map (\<lambda>r. r c) (rows t)) else Inl (KeyError c))"

text \<open>\<open>col[0]\<close> on a column.\<close>

definition first_cell :: "pyval list \<Rightarrow> py_error + pyval" where
  "first_cell col = list_getitem col 0"

section \<open>The shared light-curve record store\<close>

text \<open>One row of the store: the four index levels and the two value columns.\<close>

record event =
  objectid :: pyval
  label :: pyval
  band :: pyval
  time :: pyval
  flux :: real
  err :: real

text \<open>
  Modelled from the spec: the class \<open>MultiIndexDFObject\<close> of module \<open>data_structures\<close>
  is imported by the source but is not part of it. The spec describes it as an
  append-only collection of event records, created empty, with the single mutating
  operation "append a batch of rows", which keeps every row (no deduplication).
\<close>

type_synonym store = "event list"

definition MultiIndexDFObject :: store where
  "MultiIndexDFObject = []"

definition append :: "store \<Rightarrow> event list \<Rightarrow> store" where
  "append df_lc batch = df_lc @ batch"

section \<open>The bulk cross-match retriever\<close>

definition nl :: string where
  "nl = [CHR 0x0A]"

definition sq :: string where
  "sq = [CHR 0x27]"

text \<open>
  The text of the f-string \<open>fermiquery\<close>, lines 112 to 118, with the catalog name and
  the rendered threshold interpolated.
\<close>

definition fermiquery :: "string \<Rightarrow> string \<Rightarrow> string" where
  "fermiquery cat thr =
     nl
     @ ''            SELECT cat.name, cat.ra, cat.dec, cat.error_radius, cat.time,  mt.ID, mt.name'' @ nl
     @ ''            FROM '' @ cat @ '' cat, tap_upload.mytable mt'' @ nl
     @ ''            WHERE'' @ nl
     @ ''            cat.error_radius < '' @ thr @ '' AND'' @ nl
     @ ''            CONTAINS(POINT('' @ sq @ ''ICRS'' @ sq @ '',mt.ra,mt.dec),CIRCLE(''
         @ sq @ ''ICRS'' @ sq @ '',cat.ra,cat.dec,cat.error_radius))=1'' @ nl
     @ ''             ''"

text \<open>
  One call of \<open>run_sync\<close> as the remote service sees it: the query text and the file
  bound to the upload name \<open>mytable\<close>.
\<close>

type_synonym tap_call = "string \<times> string"

text \<open>
  A TAP service answers a call with a table or raises. Its answer may depend on the
  calls made before, which it is given as the log.
\<close>

type_synonym tap_service = "tap_call list \<Rightarrow> string \<Rightarrow> string \<Rightarrow> py_error + table"

text \<open>
  Line 127: the data frame built from a result table. The dictionary's entries are
  evaluated in the order written, so the columns are looked up in the order \<open>time\<close>,
  \<open>id\<close>, \<open>name2\<close>; the three constant columns have the length of the table.
\<close>

definition df_fermi :: "table \<Rightarrow> py_error + event list" where
  "df_fermi fermiresulttable =
     (case getcol fermiresulttable ''time'' of Inl e \<Rightarrow> Inl e | Inr time_col \<Rightarrow>
      case getcol fermiresulttable ''id'' of Inl e \<Rightarrow> Inl e | Inr id_col \<Rightarrow>
      case getcol fermiresulttable ''name2'' of Inl e \<Rightarrow> Inl e | Inr name2_col \<Rightarrow>
        Inr (map (\<lambda>k. \<lparr>objectid = id_col ! k, label = name2_col ! k, band = PStr ''Fermi GRB'',
                         time = time_col ! k, flux = 0.1, err = 0.1\<rparr>)
                 [0..<length (rows fermiresulttable)]))"

text \<open>
  The body of the loop of lines 109 to 130 for the index \<open>m\<close>. The state is the log of
  the calls issued so far and the store. A raise leaves the loop with the log as it is
  then; the store, a local variable, is lost with it. A call is logged when it is made,
  whether the service answers or raises. The printed line, the progress bar and the
  conversion \<open>to_table\<close> of the answer do not change the result and are left out.
\<close>

definition lightcurves_body ::
  "tap_service \<Rightarrow> (real \<Rightarrow> string) \<Rightarrow> string list \<Rightarrow> real list \<Rightarrow> string \<Rightarrow> nat
     \<Rightarrow> tap_call list \<times> store \<Rightarrow> tap_call list \<times> (py_error + store)" where
  "lightcurves_body service fmt heasarc_cat max_error_radius xml_filename m s =
     (case s of (lg, df_lc) \<Rightarrow>
      case list_getitem heasarc_cat (int m) of Inl e \<Rightarrow> (lg, Inl e) | Inr cat \<Rightarrow>
      case list_getitem max_error_radius (int m) of Inl e \<Rightarrow> (lg, Inl e) | Inr thr \<Rightarrow>
        (let q = fermiquery cat (fmt thr); lg' = lg @ [(q, xml_filename)] in
         case service lg q xml_filename of Inl e \<Rightarrow> (lg', Inl e) | Inr fermiresulttable \<Rightarrow>
         case df_fermi fermiresulttable of Inl e \<Rightarrow> (lg', Inl e) | Inr batch \<Rightarrow>
           (lg', Inr (append df_lc batch))))"

fun lightcurves_loop ::
  "tap_service \<Rightarrow> (real \<Rightarrow> string) \<Rightarrow> string list \<Rightarrow> real list \<Rightarrow> string \<Rightarrow> nat list
     \<Rightarrow> tap_call list \<times> store \<Rightarrow> tap_call list \<times> (py_error + store)" where
  "lightcurves_loop service fmt heasarc_cat max_error_radius xml_filename [] s =
     (fst s, Inr (snd s))"
| "lightcurves_loop service fmt heasarc_cat max_error_radius xml_filename (m # ms) s =
     (case lightcurves_body service fmt heasarc_cat max_error_radius xml_filename m s of
        (lg, Inl e) \<Rightarrow> (lg, Inl e)
      | (lg, Inr df_lc) \<Rightarrow>
          lightcurves_loop service fmt heasarc_cat max_error_radius xml_filename ms (lg, df_lc))"

text \<open>
  \<open>HEASARC_get_lightcurves\<close>, lines 77 to 132. \<open>regsearch\<close> is the outcome of the
  registry search of line 103: the services found, or a raise; \<open>[0]\<close> takes the first.
  \<open>fmt\<close> is Python's rendering of a float inside an f-string. The result is the log of
  the calls made to the service and the returned store, or the exception raised.
\<close>

definition HEASARC_get_lightcurves ::
  "(py_error + tap_service list) \<Rightarrow> (real \<Rightarrow> string) \<Rightarrow> string list \<Rightarrow> real list \<Rightarrow> string
     \<Rightarrow> tap_call list \<times> (py_error + store)" where
  "HEASARC_get_lightcurves regsearch fmt heasarc_cat max_error_radius xml_filename =
     (let df_lc = MultiIndexDFObject in
      case regsearch of Inl e \<Rightarrow> ([], Inl e) | Inr found \<Rightarrow>
      case list_getitem found 0 of Inl e \<Rightarrow> ([], Inl e) | Inr heasarc_tap \<Rightarrow>
        lightcurves_loop heasarc_tap fmt heasarc_cat max_error_radius xml_filename
          [0..<length heasarc_cat] ([], df_lc))"

section \<open>The per-object fallback retriever\<close>

record skycoord =
  ra :: real
  dec :: real

text \<open>
  One call of \<open>Heasarc.query_region\<close>: the coordinate, the mission and the radius. The
  radius is an astropy quantity that the code only passes on, so its type is left open.
\<close>

type_synonym 'q region_call = "skycoord \<times> string \<times> 'q"

type_synonym 'q region_service =
  "'q region_call list \<Rightarrow> skycoord \<Rightarrow> string \<Rightarrow> 'q \<Rightarrow> py_error + table"

text \<open>
  \<open>v.astype(float)\<close> on a cell. \<open>None\<close> has no attribute \<open>astype\<close>; a numpy string is
  parsed, which is left to the parameter \<open>float_of_str\<close> and raises ValueError when the
  text is no number.
\<close>

fun astype_float :: "(string \<Rightarrow> real option) \<Rightarrow> pyval \<Rightarrow> py_error + real" where
  "astype_float float_of_str PNone = Inl AttributeError"
| "astype_float float_of_str (PInt i) = Inr (of_int i)"
| "astype_float float_of_str (PFloat x) = Inr x"
| "astype_float float_of_str (PStr s) =
     (case float_of_str s of None \<Rightarrow> Inl ValueError | Some x \<Rightarrow> Inr x)"

text \<open>\<open>results[c][0].astype(float)\<close>.\<close>

definition time_of :: "(string \<Rightarrow> real option) \<Rightarrow> table \<Rightarrow> string \<Rightarrow> py_error + real" where
  "time_of float_of_str results c =
     (case getcol results c of Inl e \<Rightarrow> Inl e | Inr col \<Rightarrow>
      case first_cell col of Inl e \<Rightarrow> Inl e | Inr v \<Rightarrow> astype_float float_of_str v)"

text \<open>
  Lines 172 to 181: the one-row data frame built from the result of a query. The scalar
  \<open>lab\<close> is broadcast to the single row.
\<close>

definition dfsingle ::
  "(string \<Rightarrow> real option) \<Rightarrow> table \<Rightarrow> string list \<Rightarrow> pyval \<Rightarrow> string \<Rightarrow> py_error + event list" where
  "dfsingle float_of_str results labels_list oid mission =
     (case (if mission = ''FERMIGTRIG'' then time_of float_of_str results ''TRIGGER_TIME''
            else time_of float_of_str results ''TIME'') of
        Inl e \<Rightarrow> Inl e
      | Inr time_mjd \<Rightarrow>
          (case getitem_by labels_list oid of
             Inl e \<Rightarrow> Inl e
           | Inr lab \<Rightarrow>
               Inr [\<lparr>objectid = oid, label = PStr lab, band = PStr mission,
                     time = PFloat time_mjd, flux = 0.1, err = 0.1\<rparr>]))"

text \<open>Lines 169 to 181: the statements of the \<open>try\<close> block before the append.\<close>

definition forloop_try ::
  "'q region_service \<Rightarrow> (string \<Rightarrow> real option) \<Rightarrow> 'q region_call list \<Rightarrow> string list \<Rightarrow> 'q
     \<Rightarrow> pyval \<Rightarrow> skycoord \<Rightarrow> string \<Rightarrow> py_error + event list" where
  "forloop_try query_region float_of_str lg labels_list radius oid coord mission =
     (case query_region lg coord mission radius of
        Inl e \<Rightarrow> Inl e
      | Inr results \<Rightarrow> dfsingle float_of_str results labels_list oid mission)"

text \<open>
  The inner loop, lines 167 to 188, over the missions for one coordinate entry. An
  AttributeError raised in the \<open>try\<close> block is passed over; any other exception leaves
  the loop. The query is logged when it is made, whether it answers or raises. The
  append of line 184 is the last statement of the \<open>try\<close> block and does not raise.
\<close>

fun missions_loop ::
  "'q region_service \<Rightarrow> (string \<Rightarrow> real option) \<Rightarrow> string list \<Rightarrow> 'q \<Rightarrow> pyval \<Rightarrow> skycoord
     \<Rightarrow> string list \<Rightarrow> 'q region_call list \<times> store \<Rightarrow> 'q region_call list \<times> (py_error + store)" where
  "missions_loop query_region float_of_str labels_list radius oid coord [] s =
     (fst s, Inr (snd s))"
| "missions_loop query_region float_of_str labels_list radius oid coord (mission # ms) s =
     (let lg = fst s; df_lc = snd s; lg' = lg @ [(coord, mission, radius)] in
      case forloop_try query_region float_of_str lg labels_list radius oid coord mission of
        Inr batch \<Rightarrow>
          missions_loop query_region float_of_str labels_list radius oid coord ms
            (lg', append df_lc batch)
      | Inl e \<Rightarrow>
          if e = AttributeError
          then missions_loop query_region float_of_str labels_list radius oid coord ms (lg', df_lc)
          else (lg', Inl e))"

text \<open>The outer loop, line 165, over the coordinate entries.\<close>

fun coords_loop ::
  "'q region_service \<Rightarrow> (string \<Rightarrow> real option) \<Rightarrow> string list \<Rightarrow> 'q \<Rightarrow> string list
     \<Rightarrow> (pyval \<times> skycoord) list \<Rightarrow> 'q region_call list \<times> store
     \<Rightarrow> 'q region_call list \<times> (py_error + store)" where
  "coords_loop query_region float_of_str labels_list radius mission_list [] s =
     (fst s, Inr (snd s))"
| "coords_loop query_region float_of_str labels_list radius mission_list (oc # rest) s =
     (case missions_loop query_region float_of_str labels_list radius (fst oc) (snd oc)
             mission_list s of
        (lg, Inl e) \<Rightarrow> (lg, Inl e)
      | (lg, Inr df_lc) \<Rightarrow>
          coords_loop query_region float_of_str labels_list radius mission_list rest (lg, df_lc))"

text \<open>
  \<open>HEASARC_get_lightcurves_forloop\<close>, lines 134 to 190. The result is the log of the
  queries made and the returned store, or the exception that left the function.
\<close>

definition HEASARC_get_lightcurves_forloop ::
  "'q region_service \<Rightarrow> (string \<Rightarrow> real option) \<Rightarrow> (pyval \<times> skycoord) list \<Rightarrow> string list \<Rightarrow> 'q
     \<Rightarrow> string list \<Rightarrow> 'q region_call list \<times> (py_error + store)" where
  "HEASARC_get_lightcurves_forloop query_region float_of_str coords_list labels_list radius
       mission_list =
     coords_loop query_region float_of_str labels_list radius mission_list coords_list
       ([], MultiIndexDFObject)"

text \<open>
  The two nested loops as one loop over the (entry, mission) pairs in the order the
  nested loops visit them. It is an auxiliary function of the proofs, shown equal to the
  nested loops in \<open>coords_as_pairs\<close>; no statement of a claim mentions it.
\<close>

fun pairs_loop ::
  "'q region_service \<Rightarrow> (string \<Rightarrow> real option) \<Rightarrow> string list \<Rightarrow> 'q
     \<Rightarrow> ((pyval \<times> skycoord) \<times> string) list \<Rightarrow> 'q region_call list \<times> store
     \<Rightarrow> 'q region_call list \<times> (py_error + store)" where
  "pairs_loop query_region float_of_str labels_list radius [] s = (fst s, Inr (snd s))"
| "pairs_loop query_region float_of_str labels_list radius (p # ps) s =
     (case forloop_try query_region float_of_str (fst s) labels_list radius
             (fst (fst p)) (snd (fst p)) (snd p) of
        Inr batch \<Rightarrow>
          pairs_loop query_region float_of_str labels_list radius ps
            (fst s @ [(snd (fst p), snd p, radius)], snd s @ batch)
      | Inl e \<Rightarrow>
          if e = AttributeError
          then pairs_loop query_region float_of_str labels_list radius ps
                 (fst s @ [(snd (fst p), snd p, radius)], snd s)
          else (fst s @ [(snd (fst p), snd p, radius)], Inl e))"

section \<open>The VOTable packager\<close>

text \<open>
  numpy's conversion of a Python list to an array, which astropy applies to every column
  given as a list: the cells get one common type. A list holding \<open>None\<close> becomes an array
  of objects, its cells kept; otherwise a list holding a string becomes an array of
  strings, every number rendered as text; otherwise a list holding a float becomes an
  array of floats. \<open>float_repr\<close> is Python's rendering of a float.
\<close>

definition digit_char :: "nat \<Rightarrow> char" where
  "digit_char n = ''0123456789'' ! n"

function str_nat :: "nat \<Rightarrow> string" where
  "str_nat n = (if n < 10 then [digit_char n] else str_nat (n div 10) @ [digit_char (n mod 10)])"
  by pat_completeness auto
termination
  by (relation "measure (\<lambda>n. n)") auto

definition str_int :: "int \<Rightarrow> string" where
  "str_int i = (if i < 0 then ''-'' @ str_nat (nat (- i)) else str_nat (nat i))"

fun is_str :: "pyval \<Rightarrow> bool" where
  "is_str (PStr s) = True"
| "is_str v = False"

fun is_float :: "pyval \<Rightarrow> bool" where
  "is_float (PFloat x) = True"
| "is_float v = False"

fun to_str :: "(real \<Rightarrow> string) \<Rightarrow> pyval \<Rightarrow> pyval" where
  "to_str float_repr (PInt i) = PStr (str_int i)"
| "to_str float_repr (PFloat x) = PStr (float_repr x)"
| "to_str float_repr v = v"

fun to_float :: "pyval \<Rightarrow> pyval" where
  "to_float (PInt i) = PFloat (of_int i)"
| "to_float v = v"

definition np_array :: "(real \<Rightarrow> string) \<Rightarrow> pyval list \<Rightarrow> pyval list" where
  "np_array float_repr vs =
     (if PNone \<in> set vs then vs
      else if list_ex is_str vs then map (to_str float_repr) vs
      else if list_ex is_float vs then map to_float vs
      else vs)"

text \<open>
  astropy's \<open>Table(dict)\<close>: the columns in the order of the dictionary, each converted to
  an array. It collects the set of the columns' lengths and raises ValueError when that
  set has more than one element.
\<close>

definition Table_init :: "(real \<Rightarrow> string) \<Rightarrow> (string \<times> pyval list) list \<Rightarrow> py_error + table" where
  "Table_init float_repr data =
     (let cols = map (\<lambda>c. (fst c, np_array float_repr (snd c))) data;
          lengths = remdups (map (\<lambda>c. length (snd c)) cols) in
      if length lengths > 1 then Inl ValueError
      else Inr \<lparr>colnames = map fst cols,
                rows = map (\<lambda>k c. case map_of cols c of Some vs \<Rightarrow> vs ! k | None \<Rightarrow> PNone)
                         [0..<(case lengths of [] \<Rightarrow> 0 | n # _ \<Rightarrow> n)]\<rparr>)"

text \<open>
  The files. What a file holds is what astropy's VOTable writer makes of a table, of a
  type \<open>'f\<close> left open; the writer \<open>votable_write\<close> and the reader \<open>votable_read\<close> are
  the library's and are parameters, and nothing is assumed of them. \<open>writable\<close> tells
  the paths that can be written.
\<close>

record 'f fsys =
  files :: "string \<rightharpoonup> 'f"
  writable :: "string \<Rightarrow> bool"

text \<open>\<open>tab.write(path, format='votable', overwrite=True)\<close>: a file already at the path
  is replaced.\<close>

definition Table_write :: "(table \<Rightarrow> 'f) \<Rightarrow> 'f fsys \<Rightarrow> table \<Rightarrow> string \<Rightarrow> py_error + 'f fsys" where
  "Table_write votable_write fs tab path =
     (if writable fs path then Inr (fs\<lparr>files := (files fs)(path \<mapsto> votable_write tab)\<rparr>)
      else Inl OSError)"


text \<open>\<open>make_VOTable\<close>, lines 53 to 75: the file system after the call and the path
  returned, or the exception raised.\<close>

definition make_VOTable ::
  "(real \<Rightarrow> string) \<Rightarrow> (table \<Rightarrow> 'f) \<Rightarrow> 'f fsys \<Rightarrow> (pyval \<times> skycoord) list \<Rightarrow> string list
     \<Rightarrow> string \<Rightarrow> 'f fsys \<times> (py_error + string)" where
  "make_VOTable float_repr votable_write fs coords_list labels_list sourcefilename =
     (case Table_init float_repr
             [(''name'', map PStr labels_list),
              (''ra'', map (\<lambda>oc. PFloat (ra (snd oc))) coords_list),
              (''dec'', map (\<lambda>oc. PFloat (dec (snd oc))) coords_list),
              (''ID'', map (\<lambda>oc. fst oc) coords_list)] of
        Inl e \<Rightarrow> (fs, Inl e)
      | Inr tab \<Rightarrow>
          (case Table_write votable_write fs tab sourcefilename of
             Inl e \<Rightarrow> (fs, Inl e)
           | Inr fs' \<Rightarrow> (fs', Inr sourcefilename)))"

section \<open>Concrete inputs\<close>

text \<open>A small service, tables and coordinates on which the theorems below are instantiated.\<close>

definition demo_row :: "string \<Rightarrow> pyval" where
  "demo_row c =
     (if c = ''time'' then PFloat 55000 else if c = ''id'' then PInt 0
      else if c = ''name2'' then PStr ''paperA'' else PNone)"

definition demo_colnames :: "string list" where
  "demo_colnames = [''name'', ''ra'', ''dec'', ''error_radius'', ''time'', ''id'', ''name2'']"

definition demo_service :: tap_service where
  "demo_service lg q xml = Inr \<lparr>colnames = demo_colnames, rows = [demo_row]\<rparr>"

definition empty_service :: tap_service where
  "empty_service lg q xml = Inr \<lparr>colnames = demo_colnames, rows = []\<rparr>"


definition demo_fmt :: "real \<Rightarrow> string" where
  "demo_fmt r = (if r = 1 then ''1.0'' else ''3.0'')"

definition demo_event :: event where
  "demo_event = \<lparr>objectid = PInt 0, label = PStr ''paperA'', band = PStr ''Fermi GRB'',
                  time = PFloat 55000, flux = 0.1, err = 0.1\<rparr>"

definition demo_results :: table where
  "demo_results =
     \<lparr>colnames = [''NAME'', ''RA'', ''DEC'', ''TRIGGER_TIME'', ''TIME''],
      rows = [(\<lambda>c. if c = ''TRIGGER_TIME'' then PFloat 55000
                   else if c = ''TIME'' then PFloat 51000 else PNone),
              (\<lambda>c. if c = ''TRIGGER_TIME'' then PFloat 56000
                   else if c = ''TIME'' then PFloat 52000 else PNone)]\<rparr>"

definition demo_region :: "real region_service" where
  "demo_region lg coord mission radius =
     (if mission = ''FERMIGTRIG'' \<or> mission = ''SAXGRBMGRB'' then Inr demo_results
      else if mission = ''INTAGILEGRB'' then Inl AttributeError
      else Inl (OtherError ''HTTPError''))"

text \<open>A service whose second query raises AttributeError and whose fourth query raises
  another exception.\<close>

definition late_fault_region :: "real region_service" where
  "late_fault_region lg coord mission radius =
     (if length lg = 1 then Inl AttributeError
      else if length lg = 3 then Inl (OtherError ''HTTPError'')
      else Inr demo_results)"

definition demo_float_of_str :: "string \<Rightarrow> real option" where
  "demo_float_of_str s = None"

definition demo_coord :: skycoord where
  "demo_coord = \<lparr>ra = 55.3, dec = - 89\<rparr>"

definition fermi_event :: "pyval \<Rightarrow> string \<Rightarrow> event" where
  "fermi_event oid lab = \<lparr>objectid = oid, label = PStr lab, band = PStr ''FERMIGTRIG'',
     time = PFloat 55000, flux = 0.1, err = 0.1\<rparr>"

definition sax_event :: "pyval \<Rightarrow> string \<Rightarrow> event" where
  "sax_event oid lab = \<lparr>objectid = oid, label = PStr lab, band = PStr ''SAXGRBMGRB'',
     time = PFloat 51000, flux = 0.1, err = 0.1\<rparr>"

text \<open>A file format that loses nothing: the file is the table and reading gives it back.\<close>

definition lossless_write :: "table \<Rightarrow> table" where
  "lossless_write tab = tab"


definition demo_fs :: "table fsys" where
  "demo_fs = \<lparr>files = Map.empty, writable = (\<lambda>p. True)\<rparr>"

section \<open>Properties\<close>

lemma list_getitem_nat: "m < length xs \<Longrightarrow> list_getitem xs (int m) = Inr (xs ! m)"
  by (simp add: list_getitem_def)

lemma list_getitem_nat_out: "\<not> m < length xs \<Longrightarrow> list_getitem xs (int m) = Inl IndexError"
  by (simp add: list_getitem_def)


lemma lightcurves_body_IndexError:
  assumes "\<not> m < length radii"
  shows "lightcurves_body svc fmt cats radii xml m (lg, st) = (lg, Inl IndexError)"
  using assms
  by (auto simp: lightcurves_body_def list_getitem_nat_out  list_getitem_def Let_def split: sum.splits)







lemma df_fermi_demo: "df_fermi \<lparr>colnames = demo_colnames, rows = [demo_row]\<rparr> = Inr [demo_event]"
  by (simp add: df_fermi_def getcol_def demo_colnames_def demo_row_def demo_event_def)

lemma demo_bulk_run:
  "HEASARC_get_lightcurves (Inr [demo_service]) demo_fmt [''FERMIGTRIG'', ''SAXGRBMGRB''] [1, 3]
     ''sources.xml''
   = ([(fermiquery ''FERMIGTRIG'' ''1.0'', ''sources.xml''),
       (fermiquery ''SAXGRBMGRB'' ''3.0'', ''sources.xml'')],
      Inr [demo_event, demo_event])"
  by (simp add: HEASARC_get_lightcurves_def MultiIndexDFObject_def list_getitem_def
      upt_rec[of 0] upt_rec[of 1] lightcurves_body_def demo_service_def df_fermi_demo append_def demo_fmt_def)



lemma df_fermi_band:
  "df_fermi t = Inr batch \<Longrightarrow> \<forall>r\<in>set batch. band r = PStr ''Fermi GRB''"
  by (auto simp: df_fermi_def split: sum.splits)

text \<open>
  Claim C2, evaluated. Two different catalogs that both report a match for the same
  uploaded row give two stored rows, and both carry the band \<open>Fermi GRB\<close>: the tag
  does not depend on the catalog, so the rows do not differ in band.
\<close>

theorem bulk_band_same_for_two_catalogs:
  "snd (HEASARC_get_lightcurves (Inr [demo_service]) demo_fmt [''FERMIGTRIG'', ''SAXGRBMGRB'']
          [1, 3] ''sources.xml'')
     = Inr [demo_event, demo_event]
   \<and> band demo_event = PStr ''Fermi GRB''"
  by (simp add: demo_bulk_run) (simp add: demo_event_def)

lemma df_fermi_flux:
  "df_fermi t = Inr batch \<Longrightarrow> \<forall>r\<in>set batch. flux r = 0.1 \<and> err r = 0.1"
  by (auto simp: df_fermi_def split: sum.splits)

lemma lightcurves_body_store:
  assumes "lightcurves_body svc fmt cats radii xml m (lg, st) = (lg', Inr st')"
  shows "\<exists>t batch. df_fermi t = Inr batch \<and> st' = st @ batch"
  using assms
  by (auto simp: lightcurves_body_def Let_def append_def split: sum.splits)

lemma lightcurves_loop_all:
  assumes "\<forall>r\<in>set st. P r"
    and "\<And>t batch r. df_fermi t = Inr batch \<Longrightarrow> r \<in> set batch \<Longrightarrow> P r"
    and "lightcurves_loop svc fmt cats radii xml ms (lg, st) = (lg', Inr st')"
  shows "\<forall>r\<in>set st'. P r"
  using assms(1,3)
proof (induction ms arbitrary: lg st)
  case Nil
  then show ?case by simp
next
  case (Cons m ms)
  obtain lg1 r1 where b: "lightcurves_body svc fmt cats radii xml m (lg, st) = (lg1, r1)"
    by (cases "lightcurves_body svc fmt cats radii xml m (lg, st)")
  show ?case
  proof (cases r1)
    case (Inl e)
    with Cons.prems(2) b show ?thesis by simp
  next
    case (Inr st1)
    with Cons.prems(2) b
    have l: "lightcurves_loop svc fmt cats radii xml ms (lg1, st1) = (lg', Inr st')" by simp
    from lightcurves_body_store b Inr
    obtain t batch where "df_fermi t = Inr batch" "st1 = st @ batch" by blast
    with Cons.prems(1) assms(2) have "\<forall>r\<in>set st1. P r" by auto
    from Cons.IH[OF this l] show ?thesis .
  qed
qed

lemma bulk_all:
  assumes "\<And>t batch r. df_fermi t = Inr batch \<Longrightarrow> r \<in> set batch \<Longrightarrow> P r"
    and "HEASARC_get_lightcurves regsearch fmt cats radii xml = (lg, Inr df_lc)"
  shows "\<forall>r\<in>set df_lc. P r"
proof -
  from assms(2) obtain svc where
    loop: "lightcurves_loop svc fmt cats radii xml [0..<length cats] ([], MultiIndexDFObject)
             = (lg, Inr df_lc)"
    by (auto simp: HEASARC_get_lightcurves_def Let_def split: sum.splits)
  have "\<forall>r\<in>set MultiIndexDFObject. P r"
    by (simp add: MultiIndexDFObject_def)
  show ?thesis
    by (rule lightcurves_loop_all[where P = P, OF \<open>\<forall>r\<in>set MultiIndexDFObject. P r\<close> _ loop])
       (rule assms(1))
qed

lemma bulk_flux:
  assumes "HEASARC_get_lightcurves regsearch fmt cats radii xml = (lg, Inr df_lc)"
  shows "\<forall>r\<in>set df_lc. flux r = 0.1 \<and> err r = 0.1"
  by (rule bulk_all[OF _ assms]) (use df_fermi_flux in blast)

lemma bulk_band:
  assumes "HEASARC_get_lightcurves regsearch fmt cats radii xml = (lg, Inr df_lc)"
  shows "\<forall>r\<in>set df_lc. band r = PStr ''Fermi GRB''"
  by (rule bulk_all[OF _ assms]) (use df_fermi_band in blast)

text \<open>
  Claim C7. When the query for catalog \<open>m\<close> is answered with a table of zero rows (that
  has the three columns the code reads), the data frame built from it has no rows, the
  loop body returns the store as it was without raising, and the loop goes on with the
  remaining catalogs from that same store.
\<close>

theorem bulk_zero_rows_unchanged:
  assumes m: "m < length heasarc_cat" "m < length max_error_radius"
    and ans: "service lg (fermiquery (heasarc_cat ! m) (fmt (max_error_radius ! m))) xml_filename
                = Inr t"
    and cols: "''time'' \<in> set (colnames t)" "''id'' \<in> set (colnames t)"
              "''name2'' \<in> set (colnames t)"
    and empty: "rows t = []"
  shows "df_fermi t = Inr []
         \<and> lightcurves_body service fmt heasarc_cat max_error_radius xml_filename m (lg, df_lc)
             = (lg @ [(fermiquery (heasarc_cat ! m) (fmt (max_error_radius ! m)), xml_filename)],
                Inr df_lc)
         \<and> lightcurves_loop service fmt heasarc_cat max_error_radius xml_filename (m # ms)
               (lg, df_lc)
             = lightcurves_loop service fmt heasarc_cat max_error_radius xml_filename ms
                 (lg @ [(fermiquery (heasarc_cat ! m) (fmt (max_error_radius ! m)), xml_filename)],
                  df_lc)"
proof -
  have d: "df_fermi t = Inr []"
    using cols empty by (simp add: df_fermi_def getcol_def)
  have b: "lightcurves_body service fmt heasarc_cat max_error_radius xml_filename m (lg, df_lc)
             = (lg @ [(fermiquery (heasarc_cat ! m) (fmt (max_error_radius ! m)), xml_filename)],
                Inr df_lc)"
    using m ans d by (simp add: lightcurves_body_def list_getitem_nat append_def)
  from d b show ?thesis by simp
qed

lemma dfsingle_Inr:
  assumes "dfsingle s2f results labels oid mission = Inr batch"
  shows "\<exists>t lab. (if mission = ''FERMIGTRIG'' then time_of s2f results ''TRIGGER_TIME''
                    else time_of s2f results ''TIME'') = Inr t
                \<and> getitem_by labels oid = Inr lab
                \<and> batch = [\<lparr>objectid = oid, label = PStr lab, band = PStr mission,
                             time = PFloat t, flux = 0.1, err = 0.1\<rparr>]"
  using assms unfolding dfsingle_def
  by (auto split: sum.splits if_splits)


lemma forloop_try_Inr:
  assumes "forloop_try qr s2f lg labels radius oid coord mission = Inr batch"
  shows "\<exists>results. qr lg coord mission radius = Inr results
                  \<and> dfsingle s2f results labels oid mission = Inr batch"
  using assms unfolding forloop_try_def by (auto split: sum.splits)





lemma dfsingle_flux:
  "dfsingle s2f results labels oid mission = Inr batch
   \<Longrightarrow> \<forall>r\<in>set batch. flux r = 0.1 \<and> err r = 0.1"
  by (drule dfsingle_Inr) auto

lemma missions_loop_all:
  assumes "\<forall>r\<in>set st. P r"
    and "\<And>results oid mission batch r.
           dfsingle s2f results labels oid mission = Inr batch \<Longrightarrow> r \<in> set batch \<Longrightarrow> P r"
    and "missions_loop qr s2f labels radius oid coord ms (lg, st) = (lg', Inr st')"
  shows "\<forall>r\<in>set st'. P r"
  using assms(1,3)
proof (induction ms arbitrary: lg st)
  case Nil
  then show ?case by simp
next
  case (Cons m ms)
  let ?lg1 = "lg @ [(coord, m, radius)]"
  show ?case
  proof (cases "forloop_try qr s2f lg labels radius oid coord m")
    case (Inl e)
    with Cons.prems(2)
    have l: "missions_loop qr s2f labels radius oid coord ms (?lg1, st) = (lg', Inr st')"
      by (simp add: Let_def split: if_splits)
    from Cons.IH[OF Cons.prems(1) l] show ?thesis .
  next
    case (Inr batch)
    with Cons.prems(2)
    have l: "missions_loop qr s2f labels radius oid coord ms (?lg1, st @ batch) = (lg', Inr st')"
      by (simp add: Let_def append_def)
    from forloop_try_Inr[OF Inr] obtain results where
      "dfsingle s2f results labels oid m = Inr batch" by blast
    with assms(2) have "\<forall>r\<in>set batch. P r" by blast
    with Cons.prems(1) have "\<forall>r\<in>set (st @ batch). P r" by auto
    from Cons.IH[OF this l] show ?thesis .
  qed
qed

lemma coords_loop_all:
  assumes "\<forall>r\<in>set st. P r"
    and "\<And>results oid mission batch r.
           dfsingle s2f results labels oid mission = Inr batch \<Longrightarrow> r \<in> set batch \<Longrightarrow> P r"
    and "coords_loop qr s2f labels radius missions cs (lg, st) = (lg', Inr st')"
  shows "\<forall>r\<in>set st'. P r"
  using assms(1,3)
proof (induction cs arbitrary: lg st)
  case Nil
  then show ?case by simp
next
  case (Cons oc cs)
  obtain lg1 r1 where
    b: "missions_loop qr s2f labels radius (fst oc) (snd oc) missions (lg, st) = (lg1, r1)"
    by (cases "missions_loop qr s2f labels radius (fst oc) (snd oc) missions (lg, st)")
  show ?case
  proof (cases r1)
    case (Inl e)
    with Cons.prems(2) b show ?thesis by simp
  next
    case (Inr st1)
    with Cons.prems(2) b
    have l: "coords_loop qr s2f labels radius missions cs (lg1, st1) = (lg', Inr st')" by simp
    have "\<forall>r\<in>set st1. P r"
      by (rule missions_loop_all[where P = P, OF Cons.prems(1) _ b[unfolded Inr]])
         (rule assms(2))
    from Cons.IH[OF this l] show ?thesis .
  qed
qed

lemma forloop_all:
  assumes "\<And>results oid mission batch r.
           dfsingle s2f results labels oid mission = Inr batch \<Longrightarrow> r \<in> set batch \<Longrightarrow> P r"
    and "HEASARC_get_lightcurves_forloop qr s2f coords labels radius missions = (lg, Inr df_lc)"
  shows "\<forall>r\<in>set df_lc. P r"
proof -
  have e: "\<forall>r\<in>set MultiIndexDFObject. P r" by (simp add: MultiIndexDFObject_def)
  show ?thesis
    by (rule coords_loop_all[where P = P, OF e _ assms(2)[unfolded HEASARC_get_lightcurves_forloop_def]])
       (rule assms(1))
qed

lemma forloop_flux:
  assumes "HEASARC_get_lightcurves_forloop qr s2f coords labels radius missions = (lg, Inr df_lc)"
  shows "\<forall>r\<in>set df_lc. flux r = 0.1 \<and> err r = 0.1"
  by (rule forloop_all[OF _ assms]) (use dfsingle_flux in blast)

text \<open>
  Claim C3. Every record of a batch built by either retriever, and every record of the
  store either retriever returns, has flux 0.1 and err 0.1.
\<close>

theorem placeholder_flux_err:
  "(df_fermi t = Inr batch1 \<longrightarrow> (\<forall>r\<in>set batch1. flux r = 0.1 \<and> err r = 0.1))
   \<and> (dfsingle float_of_str results labels_list oid mission = Inr batch2
        \<longrightarrow> (\<forall>r\<in>set batch2. flux r = 0.1 \<and> err r = 0.1))
   \<and> (HEASARC_get_lightcurves regsearch fmt heasarc_cat max_error_radius xml_filename
          = (lg1, Inr df_lc1)
        \<longrightarrow> (\<forall>r\<in>set df_lc1. flux r = 0.1 \<and> err r = 0.1))
   \<and> (HEASARC_get_lightcurves_forloop query_region float_of_str coords_list labels_list radius
          mission_list = (lg2, Inr df_lc2)
        \<longrightarrow> (\<forall>r\<in>set df_lc2. flux r = 0.1 \<and> err r = 0.1))"
proof (intro conjI impI)
  assume "df_fermi t = Inr batch1"
  then show "\<forall>r\<in>set batch1. flux r = 0.1 \<and> err r = 0.1" by (rule df_fermi_flux)
next
  assume "dfsingle float_of_str results labels_list oid mission = Inr batch2"
  then show "\<forall>r\<in>set batch2. flux r = 0.1 \<and> err r = 0.1" by (rule dfsingle_flux)
next
  assume "HEASARC_get_lightcurves regsearch fmt heasarc_cat max_error_radius xml_filename
            = (lg1, Inr df_lc1)"
  then show "\<forall>r\<in>set df_lc1. flux r = 0.1 \<and> err r = 0.1" by (rule bulk_flux)
next
  assume "HEASARC_get_lightcurves_forloop query_region float_of_str coords_list labels_list radius
            mission_list = (lg2, Inr df_lc2)"
  then show "\<forall>r\<in>set df_lc2. flux r = 0.1 \<and> err r = 0.1" by (rule forloop_flux)
qed

lemma time_of_demo:
  "time_of s2f demo_results ''TRIGGER_TIME'' = Inr 55000"
  "time_of s2f demo_results ''TIME'' = Inr 51000"
  by (simp_all add: time_of_def getcol_def first_cell_def list_getitem_def demo_results_def)

lemma dfsingle_demo_fermi:
  "dfsingle s2f demo_results [''paperA'', ''paperB''] (PInt 0) ''FERMIGTRIG''
     = Inr [fermi_event (PInt 0) ''paperA'']"
  "dfsingle s2f demo_results [''paperA'', ''paperB''] (PInt 1) ''FERMIGTRIG''
     = Inr [fermi_event (PInt 1) ''paperB'']"
  by (simp_all add: dfsingle_def time_of_demo list_getitem_def fermi_event_def)

lemma dfsingle_demo_sax:
  "dfsingle s2f demo_results [''paperA'', ''paperB''] (PInt 0) ''SAXGRBMGRB''
     = Inr [sax_event (PInt 0) ''paperA'']"
  by (simp_all add: dfsingle_def time_of_demo list_getitem_def sax_event_def)

lemma forloop_try_demo_fermi:
  "forloop_try demo_region s2f lg [''paperA'', ''paperB''] 1 (PInt 0) demo_coord ''FERMIGTRIG''
     = Inr [fermi_event (PInt 0) ''paperA'']"
  "forloop_try demo_region s2f lg [''paperA'', ''paperB''] 1 (PInt 1) demo_coord ''FERMIGTRIG''
     = Inr [fermi_event (PInt 1) ''paperB'']"
  by (simp_all add: forloop_try_def demo_region_def dfsingle_demo_fermi)


lemma forloop_try_demo_attr:
  "forloop_try demo_region s2f lg labels 1 oid demo_coord ''INTAGILEGRB'' = Inl AttributeError"
  by (simp add: forloop_try_def demo_region_def)

lemma forloop_try_demo_other:
  "forloop_try demo_region s2f lg labels 1 oid demo_coord ''BATSEGRB''
     = Inl (OtherError ''HTTPError'')"
  by (simp add: forloop_try_def demo_region_def)


lemma missions_loop_no_AttributeError:
  "missions_loop qr s2f labels radius oid coord ms s = (lg', Inl e) \<Longrightarrow> e \<noteq> AttributeError"
proof (induction ms arbitrary: s)
  case Nil
  then show ?case by simp
next
  case (Cons m ms)
  show ?case
  proof (cases "forloop_try qr s2f (fst s) labels radius oid coord m")
    case (Inl e')
    show ?thesis
    proof (cases "e' = AttributeError")
      case True
      with Inl Cons.prems
      have "missions_loop qr s2f labels radius oid coord ms
              (fst s @ [(coord, m, radius)], snd s) = (lg', Inl e)"
        by (simp add: Let_def)
      from Cons.IH[OF this] show ?thesis .
    next
      case False
      with Inl Cons.prems show ?thesis by (simp add: Let_def)
    qed
  next
    case (Inr batch)
    with Cons.prems
    have "missions_loop qr s2f labels radius oid coord ms
            (fst s @ [(coord, m, radius)], append (snd s) batch) = (lg', Inl e)"
      by (simp add: Let_def)
    from Cons.IH[OF this] show ?thesis .
  qed
qed

lemma coords_loop_no_AttributeError:
  "coords_loop qr s2f labels radius missions cs s = (lg', Inl e) \<Longrightarrow> e \<noteq> AttributeError"
proof (induction cs arbitrary: s)
  case Nil
  then show ?case by simp
next
  case (Cons oc cs)
  obtain lg1 r1 where
    b: "missions_loop qr s2f labels radius (fst oc) (snd oc) missions s = (lg1, r1)"
    by (cases "missions_loop qr s2f labels radius (fst oc) (snd oc) missions s")
  show ?case
  proof (cases r1)
    case (Inl e')
    with Cons.prems b have "e' = e" by simp
    from b[unfolded Inl \<open>e' = e\<close>] show ?thesis by (rule missions_loop_no_AttributeError)
  next
    case (Inr st1)
    with Cons.prems b
    have "coords_loop qr s2f labels radius missions cs (lg1, st1) = (lg', Inl e)" by simp
    from Cons.IH[OF this] show ?thesis .
  qed
qed

lemma missions_as_pairs:
  "missions_loop qr s2f labels radius oid coord ms s
     = pairs_loop qr s2f labels radius (map (Pair (oid, coord)) ms) s"
proof (induction ms arbitrary: s)
  case Nil
  show ?case by simp
next
  case (Cons m ms)
  show ?case
    by (cases "forloop_try qr s2f (fst s) labels radius oid coord m")
       (simp_all add: Let_def append_def Cons.IH)
qed

lemma pairs_loop_append:
  "pairs_loop qr s2f labels radius (ps @ qs) s
     = (case pairs_loop qr s2f labels radius ps s of
          (lg, Inl e) \<Rightarrow> (lg, Inl e)
        | (lg, Inr df) \<Rightarrow> pairs_loop qr s2f labels radius qs (lg, df))"
proof (induction ps arbitrary: s)
  case Nil
  show ?case by simp
next
  case (Cons p ps)
  show ?case
    by (cases "forloop_try qr s2f (fst s) labels radius (fst (fst p)) (snd (fst p)) (snd p)")
       (simp_all add: Cons.IH)
qed

lemma coords_as_pairs:
  "coords_loop qr s2f labels radius missions cs s
     = pairs_loop qr s2f labels radius (List.product cs missions) s"
proof (induction cs arbitrary: s)
  case Nil
  show ?case by simp
next
  case (Cons oc cs)
  obtain lg r where m: "pairs_loop qr s2f labels radius (map (Pair oc) missions) s = (lg, r)"
    by (cases "pairs_loop qr s2f labels radius (map (Pair oc) missions) s")
  have "missions_loop qr s2f labels radius (fst oc) (snd oc) missions s = (lg, r)"
    using m missions_as_pairs[of qr s2f labels radius "fst oc" "snd oc" missions s] by simp
  then show ?case
    using m by (cases r) (simp_all add: pairs_loop_append Cons.IH)
qed

lemma map_upt_Suc_shift: "map f [0..<Suc n] = f 0 # map (\<lambda>k. f (Suc k)) [0..<n]"
  by (simp add: upt_conv_Cons map_Suc_upt[symmetric] del: upt_Suc)

lemma pairs_loop_returns:
  assumes "\<forall>k<length ps.
             forloop_try qr s2f (lg0 @ take k (map (\<lambda>p. (snd (fst p), snd p, radius)) ps)) labels
               radius (fst (fst (ps ! k))) (snd (fst (ps ! k))) (snd (ps ! k)) = Inl AttributeError
             \<or> (\<exists>b. forloop_try qr s2f (lg0 @ take k (map (\<lambda>p. (snd (fst p), snd p, radius)) ps))
                       labels radius (fst (fst (ps ! k))) (snd (fst (ps ! k))) (snd (ps ! k))
                     = Inr b)"
  shows "pairs_loop qr s2f labels radius ps (lg0, df0)
         = (lg0 @ map (\<lambda>p. (snd (fst p), snd p, radius)) ps,
            Inr (df0 @ concat (map (\<lambda>k.
               case forloop_try qr s2f (lg0 @ take k (map (\<lambda>p. (snd (fst p), snd p, radius)) ps))
                      labels radius (fst (fst (ps ! k))) (snd (fst (ps ! k))) (snd (ps ! k)) of
                 Inl e \<Rightarrow> [] | Inr b \<Rightarrow> b) [0..<length ps])))"
  using assms
proof (induction ps arbitrary: lg0 df0)
  case Nil
  show ?case by simp
next
  case (Cons p ps)
  let ?c = "(snd (fst p), snd p, radius)"
  let ?o = "forloop_try qr s2f lg0 labels radius (fst (fst p)) (snd (fst p)) (snd p)"
  from Cons.prems[rule_format, of 0]
  have o0: "?o = Inl AttributeError \<or> (\<exists>b. ?o = Inr b)" by simp
  have rest: "\<forall>k<length ps.
             forloop_try qr s2f ((lg0 @ [?c]) @ take k (map (\<lambda>p. (snd (fst p), snd p, radius)) ps))
               labels radius (fst (fst (ps ! k))) (snd (fst (ps ! k))) (snd (ps ! k))
               = Inl AttributeError
             \<or> (\<exists>b. forloop_try qr s2f
                       ((lg0 @ [?c]) @ take k (map (\<lambda>p. (snd (fst p), snd p, radius)) ps))
                       labels radius (fst (fst (ps ! k))) (snd (fst (ps ! k))) (snd (ps ! k))
                     = Inr b)"
  proof (intro allI impI)
    fix k assume "k < length ps"
    then have "Suc k < length (p # ps)" by simp
    from Cons.prems[rule_format, OF this] show
      "forloop_try qr s2f ((lg0 @ [?c]) @ take k (map (\<lambda>p. (snd (fst p), snd p, radius)) ps))
               labels radius (fst (fst (ps ! k))) (snd (fst (ps ! k))) (snd (ps ! k))
               = Inl AttributeError
             \<or> (\<exists>b. forloop_try qr s2f
                       ((lg0 @ [?c]) @ take k (map (\<lambda>p. (snd (fst p), snd p, radius)) ps))
                       labels radius (fst (fst (ps ! k))) (snd (fst (ps ! k))) (snd (ps ! k))
                     = Inr b)"
      by simp
  qed
  from o0 show ?case
  proof
    assume a: "?o = Inl AttributeError"
    show ?thesis
      using a Cons.IH[OF rest, of df0]
      by (simp add: map_upt_Suc_shift del: upt_Suc)
  next
    assume "\<exists>b. ?o = Inr b"
    then obtain b where b: "?o = Inr b" by blast
    show ?thesis
      using b Cons.IH[OF rest, of "df0 @ b"]
      by (simp add: map_upt_Suc_shift del: upt_Suc)
  qed
qed

lemma pairs_loop_raises:
  assumes "k < length ps"
    and "forloop_try qr s2f (lg0 @ take k (map (\<lambda>p. (snd (fst p), snd p, radius)) ps)) labels
           radius (fst (fst (ps ! k))) (snd (fst (ps ! k))) (snd (ps ! k)) = Inl e"
    and "e \<noteq> AttributeError"
    and "\<forall>j<k.
             forloop_try qr s2f (lg0 @ take j (map (\<lambda>p. (snd (fst p), snd p, radius)) ps)) labels
               radius (fst (fst (ps ! j))) (snd (fst (ps ! j))) (snd (ps ! j)) = Inl AttributeError
             \<or> (\<exists>b. forloop_try qr s2f (lg0 @ take j (map (\<lambda>p. (snd (fst p), snd p, radius)) ps))
                       labels radius (fst (fst (ps ! j))) (snd (fst (ps ! j))) (snd (ps ! j))
                     = Inr b)"
  shows "pairs_loop qr s2f labels radius ps (lg0, df0)
         = (lg0 @ take (Suc k) (map (\<lambda>p. (snd (fst p), snd p, radius)) ps), Inl e)"
  using assms
proof (induction ps arbitrary: k lg0 df0)
  case Nil
  then show ?case by simp
next
  case (Cons p ps)
  let ?c = "(snd (fst p), snd p, radius)"
  let ?o = "forloop_try qr s2f lg0 labels radius (fst (fst p)) (snd (fst p)) (snd p)"
  show ?case
  proof (cases k)
    case 0
    with Cons.prems(2,3) show ?thesis by simp
  next
    case (Suc k')
    from Cons.prems(4)[rule_format, of 0] Suc
    have o0: "?o = Inl AttributeError \<or> (\<exists>b. ?o = Inr b)" by simp
    from Cons.prems(1) Suc have k': "k' < length ps" by simp
    from Cons.prems(2) Suc
    have f: "forloop_try qr s2f ((lg0 @ [?c]) @ take k' (map (\<lambda>p. (snd (fst p), snd p, radius)) ps))
               labels radius (fst (fst (ps ! k'))) (snd (fst (ps ! k'))) (snd (ps ! k')) = Inl e"
      by simp
    have rest: "\<forall>j<k'.
             forloop_try qr s2f ((lg0 @ [?c]) @ take j (map (\<lambda>p. (snd (fst p), snd p, radius)) ps))
               labels radius (fst (fst (ps ! j))) (snd (fst (ps ! j))) (snd (ps ! j))
               = Inl AttributeError
             \<or> (\<exists>b. forloop_try qr s2f
                       ((lg0 @ [?c]) @ take j (map (\<lambda>p. (snd (fst p), snd p, radius)) ps))
                       labels radius (fst (fst (ps ! j))) (snd (fst (ps ! j))) (snd (ps ! j))
                     = Inr b)"
    proof (intro allI impI)
      fix j assume "j < k'"
      then have "Suc j < k" using Suc by simp
      from Cons.prems(4)[rule_format, OF this] show
        "forloop_try qr s2f ((lg0 @ [?c]) @ take j (map (\<lambda>p. (snd (fst p), snd p, radius)) ps))
               labels radius (fst (fst (ps ! j))) (snd (fst (ps ! j))) (snd (ps ! j))
               = Inl AttributeError
             \<or> (\<exists>b. forloop_try qr s2f
                       ((lg0 @ [?c]) @ take j (map (\<lambda>p. (snd (fst p), snd p, radius)) ps))
                       labels radius (fst (fst (ps ! j))) (snd (fst (ps ! j))) (snd (ps ! j))
                     = Inr b)"
        by simp
    qed
    from o0 show ?thesis
    proof
      assume a: "?o = Inl AttributeError"
      show ?thesis
        using a Suc Cons.IH[OF k' f Cons.prems(3) rest, of df0] by simp
    next
      assume "\<exists>b. ?o = Inr b"
      then obtain b where b: "?o = Inr b" by blast
      show ?thesis
        using b Suc Cons.IH[OF k' f Cons.prems(3) rest, of "df0 @ b"] by simp
    qed
  qed
qed

text \<open>
  Claim C5. Number the (entry, mission) pairs in the order the nested loops visit them
  and call the outcome of pair \<open>k\<close> what its \<open>try\<close> block gives after the queries of
  the pairs before it. When every outcome is a data frame or AttributeError, the function
  returns, it has queried every pair, and the store is the data frames of the pairs in
  order, a pair with AttributeError giving no row: that pair leaves the store as it was
  and the pairs after it are still processed. When pair \<open>k\<close> is the first whose outcome
  is another exception, the function raises that exception and the query of pair \<open>k\<close>
  is the last one made.
\<close>

theorem forloop_attribute_error_skipped:
  assumes pairs: "pairs = List.product coords_list mission_list"
    and calls: "calls = map (\<lambda>p. (snd (fst p), snd p, radius)) pairs"
    and outcome: "outcome = (\<lambda>k. forloop_try query_region float_of_str (take k calls)
                                  labels_list radius (fst (fst (pairs ! k)))
                                  (snd (fst (pairs ! k))) (snd (pairs ! k)))"
  shows "((\<forall>k<length pairs. outcome k = Inl AttributeError \<or> (\<exists>b. outcome k = Inr b))
          \<longrightarrow> HEASARC_get_lightcurves_forloop query_region float_of_str coords_list labels_list
                radius mission_list
              = (calls,
                 Inr (concat (map (\<lambda>k. case outcome k of Inl e \<Rightarrow> [] | Inr b \<Rightarrow> b)
                                [0..<length pairs]))))
         \<and> (\<forall>k e. k < length pairs \<and> outcome k = Inl e \<and> e \<noteq> AttributeError
                  \<and> (\<forall>j<k. outcome j = Inl AttributeError \<or> (\<exists>b. outcome j = Inr b))
               \<longrightarrow> HEASARC_get_lightcurves_forloop query_region float_of_str coords_list
                     labels_list radius mission_list
                   = (take (Suc k) calls, Inl e))"
proof (intro conjI allI impI)
  assume ok: "\<forall>k<length pairs. outcome k = Inl AttributeError \<or> (\<exists>b. outcome k = Inr b)"
  have "pairs_loop query_region float_of_str labels_list radius pairs ([], [])
        = ([] @ map (\<lambda>p. (snd (fst p), snd p, radius)) pairs,
           Inr ([] @ concat (map (\<lambda>k.
              case forloop_try query_region float_of_str
                     ([] @ take k (map (\<lambda>p. (snd (fst p), snd p, radius)) pairs))
                     labels_list radius (fst (fst (pairs ! k))) (snd (fst (pairs ! k)))
                     (snd (pairs ! k)) of
                Inl e \<Rightarrow> [] | Inr b \<Rightarrow> b) [0..<length pairs])))"
    by (rule pairs_loop_returns) (use ok in \<open>simp add: outcome calls\<close>)
  then show "HEASARC_get_lightcurves_forloop query_region float_of_str coords_list labels_list
                radius mission_list
              = (calls,
                 Inr (concat (map (\<lambda>k. case outcome k of Inl e \<Rightarrow> [] | Inr b \<Rightarrow> b)
                                [0..<length pairs])))"
    by (simp add: HEASARC_get_lightcurves_forloop_def MultiIndexDFObject_def coords_as_pairs
        pairs[symmetric] calls outcome)
next
  fix k e
  assume a: "k < length pairs \<and> outcome k = Inl e \<and> e \<noteq> AttributeError
             \<and> (\<forall>j<k. outcome j = Inl AttributeError \<or> (\<exists>b. outcome j = Inr b))"
  have "pairs_loop query_region float_of_str labels_list radius pairs ([], [])
        = ([] @ take (Suc k) (map (\<lambda>p. (snd (fst p), snd p, radius)) pairs), Inl e)"
  proof (rule pairs_loop_raises)
    from a show "k < length pairs" by simp
    from a show "forloop_try query_region float_of_str
                   ([] @ take k (map (\<lambda>p. (snd (fst p), snd p, radius)) pairs)) labels_list radius
                   (fst (fst (pairs ! k))) (snd (fst (pairs ! k))) (snd (pairs ! k)) = Inl e"
      by (simp add: outcome calls)
    from a show "e \<noteq> AttributeError" by simp
    from a show "\<forall>j<k.
             forloop_try query_region float_of_str
               ([] @ take j (map (\<lambda>p. (snd (fst p), snd p, radius)) pairs)) labels_list
               radius (fst (fst (pairs ! j))) (snd (fst (pairs ! j))) (snd (pairs ! j))
               = Inl AttributeError
             \<or> (\<exists>b. forloop_try query_region float_of_str
                       ([] @ take j (map (\<lambda>p. (snd (fst p), snd p, radius)) pairs))
                       labels_list radius (fst (fst (pairs ! j))) (snd (fst (pairs ! j)))
                       (snd (pairs ! j))
                     = Inr b)"
      by (simp add: outcome calls)
  qed
  then show "HEASARC_get_lightcurves_forloop query_region float_of_str coords_list
                     labels_list radius mission_list
                   = (take (Suc k) calls, Inl e)"
    by (simp add: HEASARC_get_lightcurves_forloop_def MultiIndexDFObject_def coords_as_pairs
        pairs[symmetric] calls)
qed

lemma getitem_by_Inr:
  assumes "getitem_by xs oid = Inr x"
  shows "\<exists>i. oid = PInt i \<and> - int (length xs) \<le> i \<and> i < int (length xs)
             \<and> x = xs ! nat (if i < 0 then int (length xs) + i else i)"
  using assms
  by (cases oid) (auto simp: list_getitem_def Let_def split: if_splits)

text \<open>
  What is built when the \<open>try\<close> block completes: the identifier is an integer that is
  a valid Python index into the labels list, exactly one record is appended, with the
  identifier as objectid and, as label, the labels list indexed by the identifier.
\<close>

lemma forloop_record_shape:
  assumes "forloop_try query_region float_of_str lg labels_list radius oid coord mission
             = Inr batch"
  shows "\<exists>i t. oid = PInt i \<and> - int (length labels_list) \<le> i \<and> i < int (length labels_list)
           \<and> batch = [\<lparr>objectid = oid,
                         label = PStr (labels_list !
                                   nat (if i < 0 then int (length labels_list) + i else i)),
                         band = PStr mission, time = PFloat t, flux = 0.1, err = 0.1\<rparr>]
           \<and> (\<forall>k. oid = PInt (int k) \<longrightarrow> label (hd batch) = PStr (labels_list ! k))
           \<and> missions_loop query_region float_of_str labels_list radius oid coord (mission # ms)
                 (lg, df_lc)
               = missions_loop query_region float_of_str labels_list radius oid coord ms
                   (lg @ [(coord, mission, radius)], df_lc @ batch)"
proof -
  from forloop_try_Inr[OF assms] obtain results where
    d: "dfsingle float_of_str results labels_list oid mission = Inr batch" by blast
  from dfsingle_Inr[OF d] obtain t lab where
    g: "getitem_by labels_list oid = Inr lab" and
    b: "batch = [\<lparr>objectid = oid, label = PStr lab, band = PStr mission,
                  time = PFloat t, flux = 0.1, err = 0.1\<rparr>]" by blast
  from getitem_by_Inr[OF g] obtain i where
    i: "oid = PInt i" "- int (length labels_list) \<le> i" "i < int (length labels_list)"
       "lab = labels_list ! nat (if i < 0 then int (length labels_list) + i else i)" by blast
  have l: "missions_loop query_region float_of_str labels_list radius oid coord (mission # ms)
                 (lg, df_lc)
               = missions_loop query_region float_of_str labels_list radius oid coord ms
                   (lg @ [(coord, mission, radius)], df_lc @ batch)"
    using assms by (simp add: Let_def append_def)
  have k: "\<forall>k. oid = PInt (int k) \<longrightarrow> label (hd batch) = PStr (labels_list ! k)"
    using i b by auto
  show ?thesis
    apply (rule exI[of _ i])
    apply (rule exI[of _ t])
    using i b l k apply simp
    done
qed





lemma length_np_array: "length (np_array float_repr vs) = length vs"
  by (simp add: np_array_def)


lemma Table_init_mismatch:
  assumes "length c1 \<noteq> n" "length c2 = n" "length c3 = n" "length c4 = n"
  shows "Table_init float_repr [(''name'', c1), (''ra'', c2), (''dec'', c3), (''ID'', c4)]
         = Inl ValueError"
  using assms by (simp add: Table_init_def length_np_array)

text \<open>
  Claim C10. When the labels list and the coordinates list differ in length, the
  construction of the table raises ValueError and the files are what they were: the
  write is never reached.
\<close>

theorem make_VOTable_length_mismatch:
  assumes "length labels_list \<noteq> length coords_list"
  shows "make_VOTable float_repr votable_write fs coords_list labels_list sourcefilename
         = (fs, Inl ValueError)"
proof -
  have "Table_init float_repr [(''name'', map PStr labels_list),
              (''ra'', map (\<lambda>oc. PFloat (ra (snd oc))) coords_list),
              (''dec'', map (\<lambda>oc. PFloat (dec (snd oc))) coords_list),
              (''ID'', map (\<lambda>oc. fst oc) coords_list)] = Inl ValueError"
    by (rule Table_init_mismatch[where n = "length coords_list"]) (simp_all add: assms)
  then show ?thesis unfolding make_VOTable_def by simp
qed





text \<open>Claim C10 at one label for two entries.\<close>

theorem make_VOTable_length_mismatch_witness:
  "length [''paperA''] \<noteq> length [(PInt 0, demo_coord), (PInt 1, demo_coord)]
   \<and> make_VOTable demo_fmt lossless_write demo_fs [(PInt 0, demo_coord), (PInt 1, demo_coord)]
        [''paperA''] ''sources.xml'' = (demo_fs, Inl ValueError)"
proof -
  have n: "length [''paperA''] \<noteq> length [(PInt 0, demo_coord), (PInt 1, demo_coord)]" by simp
  from make_VOTable_length_mismatch[OF n] n show ?thesis by (intro conjI)
qed

text \<open>Claim C7 at the first of two catalogs, on a store that already holds a record.\<close>

theorem bulk_zero_rows_unchanged_witness:
  "(0::nat) < length [''FERMIGTRIG'', ''SAXGRBMGRB''] \<and> (0::nat) < length [1, 3 :: real]
   \<and> empty_service [] (fermiquery ([''FERMIGTRIG'', ''SAXGRBMGRB''] ! 0) (demo_fmt ([1, 3] ! 0)))
        ''sources.xml'' = Inr \<lparr>colnames = demo_colnames, rows = []\<rparr>
   \<and> ''time'' \<in> set (colnames \<lparr>colnames = demo_colnames, rows = []\<rparr>)
   \<and> ''id'' \<in> set (colnames \<lparr>colnames = demo_colnames, rows = []\<rparr>)
   \<and> ''name2'' \<in> set (colnames \<lparr>colnames = demo_colnames, rows = []\<rparr>)
   \<and> rows \<lparr>colnames = demo_colnames, rows = []\<rparr> = []
   \<and> df_fermi \<lparr>colnames = demo_colnames, rows = []\<rparr> = Inr []
   \<and> lightcurves_body empty_service demo_fmt [''FERMIGTRIG'', ''SAXGRBMGRB''] [1, 3]
        ''sources.xml'' 0 ([], [demo_event])
      = ([] @ [(fermiquery ([''FERMIGTRIG'', ''SAXGRBMGRB''] ! 0) (demo_fmt ([1, 3] ! 0)),
                ''sources.xml'')], Inr [demo_event])
   \<and> lightcurves_loop empty_service demo_fmt [''FERMIGTRIG'', ''SAXGRBMGRB''] [1, 3]
        ''sources.xml'' (0 # [1]) ([], [demo_event])
      = lightcurves_loop empty_service demo_fmt [''FERMIGTRIG'', ''SAXGRBMGRB''] [1, 3]
          ''sources.xml'' [1]
          ([] @ [(fermiquery ([''FERMIGTRIG'', ''SAXGRBMGRB''] ! 0) (demo_fmt ([1, 3] ! 0)),
                  ''sources.xml'')], [demo_event])"
proof -
  have m: "(0::nat) < length [''FERMIGTRIG'', ''SAXGRBMGRB'']" "(0::nat) < length [1, 3 :: real]"
    by simp_all
  have a: "empty_service [] (fermiquery ([''FERMIGTRIG'', ''SAXGRBMGRB''] ! 0)
             (demo_fmt ([1, 3] ! 0))) ''sources.xml'' = Inr \<lparr>colnames = demo_colnames, rows = []\<rparr>"
    by (simp add: empty_service_def)
  have c: "''time'' \<in> set (colnames \<lparr>colnames = demo_colnames, rows = []\<rparr>)"
          "''id'' \<in> set (colnames \<lparr>colnames = demo_colnames, rows = []\<rparr>)"
          "''name2'' \<in> set (colnames \<lparr>colnames = demo_colnames, rows = []\<rparr>)"
    by (simp_all add: demo_colnames_def)
  have e: "rows \<lparr>colnames = demo_colnames, rows = []\<rparr> = []" by simp
  note r = bulk_zero_rows_unchanged[where service = empty_service and fmt = demo_fmt
         and heasarc_cat = "[''FERMIGTRIG'', ''SAXGRBMGRB'']" and max_error_radius = "[1, 3]"
         and m = 0 and lg = "[]" and xml_filename = "''sources.xml''"
         and t = "\<lparr>colnames = demo_colnames, rows = []\<rparr>"
         and df_lc = "[demo_event]" and ms = "[1]", OF m a c e]
  from r[THEN conjunct1] r[THEN conjunct2, THEN conjunct1] r[THEN conjunct2, THEN conjunct2]
       m a c e
  show ?thesis by (intro conjI)
qed

lemma demo_forloop_run:
  "HEASARC_get_lightcurves_forloop demo_region demo_float_of_str
     [(PInt 1, demo_coord), (PInt 0, demo_coord)] [''paperA'', ''paperB''] 1 [''FERMIGTRIG'']
   = ([(demo_coord, ''FERMIGTRIG'', 1), (demo_coord, ''FERMIGTRIG'', 1)],
      Inr [fermi_event (PInt 1) ''paperB'', fermi_event (PInt 0) ''paperA''])"
  by (simp add: HEASARC_get_lightcurves_forloop_def MultiIndexDFObject_def Let_def
      forloop_try_demo_fermi append_def)

lemma demo_forloop_bad_index:
  "HEASARC_get_lightcurves_forloop demo_region demo_float_of_str
     [(PInt 2, demo_coord), (PInt 0, demo_coord)] [''paperA'', ''paperB''] 1 [''FERMIGTRIG'']
   = ([(demo_coord, ''FERMIGTRIG'', 1)], Inl IndexError)"
  by (simp add: HEASARC_get_lightcurves_forloop_def MultiIndexDFObject_def Let_def
      forloop_try_def demo_region_def dfsingle_def time_of_demo list_getitem_def)

text \<open>
  Claim C8, evaluated. With the identifiers 1 and 0 on the first and second entry, the
  record of the first entry carries the second label: line 178 finds the label under the
  identifier, not under the position of the entry. With the identifier 2 and two labels
  the query answers, the lookup raises IndexError, which is not caught, and the run ends
  with no record.
\<close>

theorem forloop_label_by_identifier:
  "HEASARC_get_lightcurves_forloop demo_region demo_float_of_str
     [(PInt 1, demo_coord), (PInt 0, demo_coord)] [''paperA'', ''paperB''] 1 [''FERMIGTRIG'']
   = ([(demo_coord, ''FERMIGTRIG'', 1), (demo_coord, ''FERMIGTRIG'', 1)],
      Inr [fermi_event (PInt 1) ''paperB'', fermi_event (PInt 0) ''paperA''])
   \<and> label (fermi_event (PInt 1) ''paperB'') = PStr ''paperB''
   \<and> PStr ''paperB'' \<noteq> PStr ([''paperA'', ''paperB''] ! 0)
   \<and> HEASARC_get_lightcurves_forloop demo_region demo_float_of_str
        [(PInt 2, demo_coord), (PInt 0, demo_coord)] [''paperA'', ''paperB''] 1 [''FERMIGTRIG'']
      = ([(demo_coord, ''FERMIGTRIG'', 1)], Inl IndexError)"
  by (simp add: demo_forloop_run demo_forloop_bad_index) (simp add: fermi_event_def)


text \<open>Claim C3 on one batch and one returned store of each retriever.\<close>

theorem placeholder_flux_err_witness:
  "df_fermi \<lparr>colnames = demo_colnames, rows = [demo_row]\<rparr> = Inr [demo_event]
   \<and> flux demo_event = 0.1 \<and> err demo_event = 0.1
   \<and> dfsingle demo_float_of_str demo_results [''paperA'', ''paperB''] (PInt 0) ''SAXGRBMGRB''
       = Inr [sax_event (PInt 0) ''paperA'']
   \<and> flux (sax_event (PInt 0) ''paperA'') = 0.1 \<and> err (sax_event (PInt 0) ''paperA'') = 0.1
   \<and> HEASARC_get_lightcurves (Inr [demo_service]) demo_fmt [''FERMIGTRIG'', ''SAXGRBMGRB'']
        [1, 3] ''sources.xml''
       = ([(fermiquery ''FERMIGTRIG'' ''1.0'', ''sources.xml''),
           (fermiquery ''SAXGRBMGRB'' ''3.0'', ''sources.xml'')],
          Inr [demo_event, demo_event])
   \<and> HEASARC_get_lightcurves_forloop demo_region demo_float_of_str
         [(PInt 1, demo_coord), (PInt 0, demo_coord)] [''paperA'', ''paperB''] 1 [''FERMIGTRIG'']
       = ([(demo_coord, ''FERMIGTRIG'', 1), (demo_coord, ''FERMIGTRIG'', 1)],
          Inr [fermi_event (PInt 1) ''paperB'', fermi_event (PInt 0) ''paperA''])
   \<and> flux (fermi_event (PInt 1) ''paperB'') = 0.1 \<and> err (fermi_event (PInt 1) ''paperB'') = 0.1
   \<and> flux (fermi_event (PInt 0) ''paperA'') = 0.1 \<and> err (fermi_event (PInt 0) ''paperA'') = 0.1"
proof -
  note r = placeholder_flux_err[where t = "\<lparr>colnames = demo_colnames, rows = [demo_row]\<rparr>"
      and ?batch1.0 = "[demo_event]"
      and float_of_str = demo_float_of_str and results = demo_results
      and labels_list = "[''paperA'', ''paperB'']" and oid = "PInt 0"
      and mission = "''SAXGRBMGRB''" and ?batch2.0 = "[sax_event (PInt 0) ''paperA'']"
      and regsearch = "Inr [demo_service]" and fmt = demo_fmt
      and heasarc_cat = "[''FERMIGTRIG'', ''SAXGRBMGRB'']" and max_error_radius = "[1, 3]"
      and xml_filename = "''sources.xml''"
      and ?lg1.0 = "[(fermiquery ''FERMIGTRIG'' ''1.0'', ''sources.xml''),
                     (fermiquery ''SAXGRBMGRB'' ''3.0'', ''sources.xml'')]"
      and ?df_lc1.0 = "[demo_event, demo_event]"
      and query_region = demo_region
      and coords_list = "[(PInt 1, demo_coord), (PInt 0, demo_coord)]"
      and radius = 1 and mission_list = "[''FERMIGTRIG'']"
      and ?lg2.0 = "[(demo_coord, ''FERMIGTRIG'', 1), (demo_coord, ''FERMIGTRIG'', 1)]"
      and ?df_lc2.0 = "[fermi_event (PInt 1) ''paperB'', fermi_event (PInt 0) ''paperA'']"]
  note a = df_fermi_demo
  note b = dfsingle_demo_sax[of demo_float_of_str]
  note c = demo_bulk_run
  note d = demo_forloop_run
  from r[THEN conjunct2, THEN conjunct2, THEN conjunct1, THEN mp, OF c]
  have 1: "flux demo_event = 0.1" "err demo_event = 0.1" by simp_all
  from r[THEN conjunct2, THEN conjunct1, THEN mp, OF b]
  have 2: "flux (sax_event (PInt 0) ''paperA'') = 0.1" "err (sax_event (PInt 0) ''paperA'') = 0.1"
    by simp_all
  from r[THEN conjunct2, THEN conjunct2, THEN conjunct2, THEN mp, OF d]
  have 3: "flux (fermi_event (PInt 1) ''paperB'') = 0.1" "err (fermi_event (PInt 1) ''paperB'') = 0.1"
          "flux (fermi_event (PInt 0) ''paperA'') = 0.1" "err (fermi_event (PInt 0) ''paperA'') = 0.1"
    by simp_all
  from a b c d 1 2 3 show ?thesis by (intro conjI)
qed

lemma demo_missions_attr:
  "missions_loop demo_region demo_float_of_str [''paperA'', ''paperB''] 1 (PInt 0) demo_coord
     [''FERMIGTRIG''] ([(demo_coord, ''INTAGILEGRB'', 1)], [])
   = ([(demo_coord, ''INTAGILEGRB'', 1), (demo_coord, ''FERMIGTRIG'', 1)],
      Inr [fermi_event (PInt 0) ''paperA''])"
  by (simp add: Let_def forloop_try_demo_fermi append_def)

lemma demo_forloop_fault:
  "HEASARC_get_lightcurves_forloop demo_region demo_float_of_str
     [(PInt 0, demo_coord), (PInt 1, demo_coord)] [''paperA'', ''paperB''] 1
     [''INTAGILEGRB'', ''BATSEGRB'', ''FERMIGTRIG'']
   = ([(demo_coord, ''INTAGILEGRB'', 1), (demo_coord, ''BATSEGRB'', 1)],
      Inl (OtherError ''HTTPError''))"
  by (simp add: HEASARC_get_lightcurves_forloop_def MultiIndexDFObject_def Let_def
      forloop_try_demo_attr forloop_try_demo_other)

lemma forloop_try_late:
  "length lg \<noteq> 1 \<Longrightarrow> length lg \<noteq> 3 \<Longrightarrow>
   forloop_try late_fault_region s2f lg [''paperA'', ''paperB''] 1 (PInt 0) demo_coord ''FERMIGTRIG''
     = Inr [fermi_event (PInt 0) ''paperA'']"
  "length lg \<noteq> 1 \<Longrightarrow> length lg \<noteq> 3 \<Longrightarrow>
   forloop_try late_fault_region s2f lg [''paperA'', ''paperB''] 1 (PInt 1) demo_coord ''FERMIGTRIG''
     = Inr [fermi_event (PInt 1) ''paperB'']"
  "length lg = 1 \<Longrightarrow>
   forloop_try late_fault_region s2f lg labels 1 oid demo_coord mission = Inl AttributeError"
  "length lg = 3 \<Longrightarrow>
   forloop_try late_fault_region s2f lg labels 1 oid demo_coord mission
     = Inl (OtherError ''HTTPError'')"
  by (simp_all add: forloop_try_def late_fault_region_def dfsingle_demo_fermi)

text \<open>
  Claim C5 on two runs. In the first the first mission raises AttributeError for both
  entries and the second answers: the function returns with one record per entry. In the
  second the second query raises AttributeError and the fourth, for the second entry,
  raises another exception: the function raises it and the third entry is not queried.
\<close>

theorem forloop_attribute_error_skipped_witness:
  "forloop_try demo_region demo_float_of_str [] [''paperA'', ''paperB''] 1 (PInt 0) demo_coord
      ''INTAGILEGRB'' = Inl AttributeError
   \<and> forloop_try demo_region demo_float_of_str [(demo_coord, ''INTAGILEGRB'', 1)]
        [''paperA'', ''paperB''] 1 (PInt 0) demo_coord ''FERMIGTRIG''
      = Inr [fermi_event (PInt 0) ''paperA'']
   \<and> HEASARC_get_lightcurves_forloop demo_region demo_float_of_str
        [(PInt 0, demo_coord), (PInt 1, demo_coord)] [''paperA'', ''paperB''] 1
        [''INTAGILEGRB'', ''FERMIGTRIG'']
      = ([(demo_coord, ''INTAGILEGRB'', 1), (demo_coord, ''FERMIGTRIG'', 1),
          (demo_coord, ''INTAGILEGRB'', 1), (demo_coord, ''FERMIGTRIG'', 1)],
         Inr [fermi_event (PInt 0) ''paperA'', fermi_event (PInt 1) ''paperB''])
   \<and> forloop_try late_fault_region demo_float_of_str
        [(demo_coord, ''FERMIGTRIG'', 1)]
        [''paperA'', ''paperB''] 1 (PInt 0) demo_coord ''SAXGRBMGRB'' = Inl AttributeError
   \<and> forloop_try late_fault_region demo_float_of_str
        [(demo_coord, ''FERMIGTRIG'', 1), (demo_coord, ''SAXGRBMGRB'', 1),
         (demo_coord, ''FERMIGTRIG'', 1)]
        [''paperA'', ''paperB''] 1 (PInt 1) demo_coord ''SAXGRBMGRB''
      = Inl (OtherError ''HTTPError'')
   \<and> OtherError ''HTTPError'' \<noteq> AttributeError
   \<and> HEASARC_get_lightcurves_forloop late_fault_region demo_float_of_str
        [(PInt 0, demo_coord), (PInt 1, demo_coord), (PInt 0, demo_coord)]
        [''paperA'', ''paperB''] 1 [''FERMIGTRIG'', ''SAXGRBMGRB'']
      = ([(demo_coord, ''FERMIGTRIG'', 1), (demo_coord, ''SAXGRBMGRB'', 1),
          (demo_coord, ''FERMIGTRIG'', 1), (demo_coord, ''SAXGRBMGRB'', 1)],
         Inl (OtherError ''HTTPError''))"
proof -
  note r1 = forloop_attribute_error_skipped[OF refl refl refl,
      where query_region = demo_region and float_of_str = demo_float_of_str
        and coords_list = "[(PInt 0, demo_coord), (PInt 1, demo_coord)]"
        and labels_list = "[''paperA'', ''paperB'']" and radius = 1
        and mission_list = "[''INTAGILEGRB'', ''FERMIGTRIG'']", THEN conjunct1]
  have run1: "HEASARC_get_lightcurves_forloop demo_region demo_float_of_str
        [(PInt 0, demo_coord), (PInt 1, demo_coord)] [''paperA'', ''paperB''] 1
        [''INTAGILEGRB'', ''FERMIGTRIG'']
      = ([(demo_coord, ''INTAGILEGRB'', 1), (demo_coord, ''FERMIGTRIG'', 1),
          (demo_coord, ''INTAGILEGRB'', 1), (demo_coord, ''FERMIGTRIG'', 1)],
         Inr [fermi_event (PInt 0) ''paperA'', fermi_event (PInt 1) ''paperB''])"
    using r1
    by (simp add: All_less_Suc forloop_try_demo_attr forloop_try_demo_fermi)
  note r2 = forloop_attribute_error_skipped[OF refl refl refl,
      where query_region = late_fault_region and float_of_str = demo_float_of_str
        and coords_list = "[(PInt 0, demo_coord), (PInt 1, demo_coord), (PInt 0, demo_coord)]"
        and labels_list = "[''paperA'', ''paperB'']" and radius = 1
        and mission_list = "[''FERMIGTRIG'', ''SAXGRBMGRB'']",
      THEN conjunct2, rule_format, of "Suc (Suc (Suc 0))" "OtherError ''HTTPError''"]
  have run2: "HEASARC_get_lightcurves_forloop late_fault_region demo_float_of_str
        [(PInt 0, demo_coord), (PInt 1, demo_coord), (PInt 0, demo_coord)]
        [''paperA'', ''paperB''] 1 [''FERMIGTRIG'', ''SAXGRBMGRB'']
      = ([(demo_coord, ''FERMIGTRIG'', 1), (demo_coord, ''SAXGRBMGRB'', 1),
          (demo_coord, ''FERMIGTRIG'', 1), (demo_coord, ''SAXGRBMGRB'', 1)],
         Inl (OtherError ''HTTPError''))"
    using r2
    by (simp add: All_less_Suc forloop_try_late)
  have a: "forloop_try demo_region demo_float_of_str [] [''paperA'', ''paperB''] 1 (PInt 0)
             demo_coord ''INTAGILEGRB'' = Inl AttributeError"
    by (rule forloop_try_demo_attr)
  have b: "forloop_try demo_region demo_float_of_str [(demo_coord, ''INTAGILEGRB'', 1)]
        [''paperA'', ''paperB''] 1 (PInt 0) demo_coord ''FERMIGTRIG''
      = Inr [fermi_event (PInt 0) ''paperA'']"
    by (rule forloop_try_demo_fermi(1))
  have c: "forloop_try late_fault_region demo_float_of_str
        [(demo_coord, ''FERMIGTRIG'', 1)]
        [''paperA'', ''paperB''] 1 (PInt 0) demo_coord ''SAXGRBMGRB'' = Inl AttributeError"
    by (simp add: forloop_try_late)
  have d: "forloop_try late_fault_region demo_float_of_str
        [(demo_coord, ''FERMIGTRIG'', 1), (demo_coord, ''SAXGRBMGRB'', 1),
         (demo_coord, ''FERMIGTRIG'', 1)]
        [''paperA'', ''paperB''] 1 (PInt 1) demo_coord ''SAXGRBMGRB''
      = Inl (OtherError ''HTTPError'')"
    by (simp add: forloop_try_late)
  have n: "OtherError ''HTTPError'' \<noteq> AttributeError" by simp
  from a b run1 c d n run2 show ?thesis by (intro conjI)
qed

end
